theory Spec2Isabelle
  imports Main "HOL-Library.Multiset" "HOL-Library.Sublist" "HOL-Library.Word"
begin

section \<open>Python values\<close>

text \<open>
  The event payloads are Python dictionaries with string keys and arbitrary values.
  \<open>pyval\<close> is the part of Python's value universe the recorder passes around; a
  dictionary is a partial map from keys to values, and \<open>d.get(k, default)\<close> is
  \<open>dict_get\<close>.
\<close>

datatype pyval =
    PNone
  | PBool bool
  | PInt int
  | PStr string
  | PList "pyval list"
  | PDict "(string \<times> pyval) list"

type_synonym pydict = "string \<rightharpoonup> pyval"

definition dict_get :: "pydict \<Rightarrow> string \<Rightarrow> pyval \<Rightarrow> pyval" where
  "dict_get d k dflt = (case d k of None \<Rightarrow> dflt | Some v \<Rightarrow> v)"

section \<open>Python exceptions and strings\<close>

text \<open>
  Exceptions are values. \<open>TypeError\<close> and \<open>IndexError\<close> are the two the modelled code
  can raise by itself; \<open>Exception\<close> stands for any other exception derived from
  Python's \<open>Exception\<close> class (what an awaited call may raise), and \<open>BaseException\<close>
  for one that is not (a cancellation, a keyboard interrupt), which
  \<open>except Exception\<close> does not catch. A function that can raise returns \<open>exn + 'a\<close>.

  Strings are lists of characters, restricted to ASCII: the case mapping and the
  white space below are the ASCII part of Python's, and the output of a subprocess is
  taken as already decoded.
\<close>

datatype exn =
    TypeError string
  | IndexError
  | Exception string
  | BaseException string

text \<open>\<open>sub in s\<close> for strings: \<open>sub\<close> occurs in \<open>s\<close> as a contiguous piece.\<close>

fun contains_str :: "string \<Rightarrow> string \<Rightarrow> bool" where
  "contains_str sub [] = (sub = [])"
| "contains_str sub (c # cs) = (prefix sub (c # cs) \<or> contains_str sub cs)"

text \<open>
  The slice \<open>s[:n]\<close>: the first \<open>n\<close> elements, or all but the last \<open>-n\<close> when \<open>n\<close> is
  negative.
\<close>

definition py_slice_to :: "'a list \<Rightarrow> int \<Rightarrow> 'a list" where
  "py_slice_to s n = (if n < 0 then take (nat (int (length s) + n)) s else take (nat n) s)"

text \<open>\<open>str(i)\<close> for an integer, as an f-string formats it: decimal, with a sign when negative.\<close>

definition digit_char :: "nat \<Rightarrow> char" where
  "digit_char d =
     (if d = 0 then CHR ''0'' else if d = 1 then CHR ''1'' else if d = 2 then CHR ''2''
      else if d = 3 then CHR ''3'' else if d = 4 then CHR ''4'' else if d = 5 then CHR ''5''
      else if d = 6 then CHR ''6'' else if d = 7 then CHR ''7'' else if d = 8 then CHR ''8''
      else CHR ''9'')"

function str_nat :: "nat \<Rightarrow> string" where
  "str_nat n = (if n < 10 then [digit_char n] else str_nat (n div 10) @ [digit_char (n mod 10)])"
  by pat_completeness auto
termination
  by (relation "measure id") auto

declare str_nat.simps [simp del]

definition str_int :: "int \<Rightarrow> string" where
  "str_int i = (if i < 0 then CHR ''-'' # str_nat (nat (- i)) else str_nat (nat i))"

text \<open>
  A \<open>UUID\<close> is a 128-bit integer; \<open>str\<close> of it is its 32 lower-case hexadecimal
  digits in groups of 8, 4, 4, 4 and 12, joined by hyphens (the standard library's
  \<open>UUID.__str__\<close>).
\<close>

definition hex_char :: "nat \<Rightarrow> char" where
  "hex_char d =
     (if d < 10 then digit_char d else if d = 10 then CHR ''a'' else if d = 11 then CHR ''b''
      else if d = 12 then CHR ''c'' else if d = 13 then CHR ''d'' else if d = 14 then CHR ''e''
      else CHR ''f'')"

type_synonym UUID = "128 word"

definition hex32 :: "UUID \<Rightarrow> string" where
  "hex32 u = map (\<lambda>i. hex_char (unat (drop_bit (4 * (31 - i)) u) mod 16)) [0..<32]"

definition str_uuid :: "UUID \<Rightarrow> string" where
  "str_uuid u =
     (let hex = hex32 u
      in take 8 hex @ ''-'' @ take 4 (drop 8 hex) @ ''-'' @ take 4 (drop 12 hex) @ ''-''
         @ take 4 (drop 16 hex) @ ''-'' @ drop 20 hex)"

text \<open>\<open>s.lower()\<close>.\<close>

definition lower_char :: "char \<Rightarrow> char" where
  "lower_char c =
     (case map_of (zip ''ABCDEFGHIJKLMNOPQRSTUVWXYZ'' ''abcdefghijklmnopqrstuvwxyz'') c of
        None \<Rightarrow> c
      | Some l \<Rightarrow> l)"

definition py_lower :: "string \<Rightarrow> string" where
  "py_lower s = map lower_char s"

text \<open>
  White space: \<open>bytes.strip()\<close> removes space, tab, line feed, vertical tab, form feed
  and carriage return; \<open>str.strip()\<close> and \<open>str.split()\<close> also treat the four separator
  characters \<open>0x1C\<close> to \<open>0x1F\<close> as white space.
\<close>

definition is_space_bytes :: "char \<Rightarrow> bool" where
  "is_space_bytes c \<longleftrightarrow> c \<in> set [CHR '' '', CHR 0x09, CHR 0x0A, CHR 0x0B, CHR 0x0C, CHR 0x0D]"

definition is_space :: "char \<Rightarrow> bool" where
  "is_space c \<longleftrightarrow>
     c \<in> set [CHR '' '', CHR 0x09, CHR 0x0A, CHR 0x0B, CHR 0x0C, CHR 0x0D,
              CHR 0x1C, CHR 0x1D, CHR 0x1E, CHR 0x1F]"

definition py_strip_with :: "(char \<Rightarrow> bool) \<Rightarrow> string \<Rightarrow> string" where
  "py_strip_with ws s = rev (dropWhile ws (rev (dropWhile ws s)))"

text \<open>\<open>s.rstrip(chars)\<close>: trailing characters that occur in \<open>chars\<close> are removed.\<close>

definition py_rstrip :: "string \<Rightarrow> string \<Rightarrow> string" where
  "py_rstrip chars s = rev (dropWhile (\<lambda>c. c \<in> set chars) (rev s))"

text \<open>
  \<open>s.split()[0]\<close>: the first maximal run of characters that are not white space;
  \<open>IndexError\<close> when there is none, the list being empty then.
\<close>

definition py_split_first :: "string \<Rightarrow> exn + string" where
  "py_split_first s =
     (let t = dropWhile is_space s
      in if t = [] then Inl IndexError else Inr (takeWhile (\<lambda>c. \<not> is_space c) t))"

text \<open>
  \<open>s.replace(old, new)\<close>: every occurrence of \<open>old\<close>, found from the left and not
  overlapping, is replaced by \<open>new\<close>; for an empty \<open>old\<close>, \<open>new\<close> is put before every
  character and at the end.
\<close>

function py_replace :: "string \<Rightarrow> string \<Rightarrow> string \<Rightarrow> string" where
  "py_replace old new s =
     (if old = [] then new @ concat (map (\<lambda>c. c # new) s)
      else if s = [] then []
      else if prefix old s then new @ py_replace old new (drop (length old) s)
      else hd s # py_replace old new (tl s))"
  by pat_completeness auto
termination
  by (relation "measure (\<lambda>(old, new, s). length s)") auto

declare py_replace.simps [simp del]

section \<open>lfx/debug/event_recorder.py\<close>

subsection \<open>Data model\<close>

text \<open>
  Modelled from the spec: the class \<open>GraphMutationEvent\<close> is declared in
  \<open>lfx.debug.events\<close>, which is not among the sources. The recorder reads the
  attributes \<open>vertex_id\<close> (a string or \<open>None\<close>), \<open>event_type\<close>, \<open>step\<close>,
  \<open>timing\<close>, \<open>changes\<close> and \<open>state_after\<close> (dictionaries, since \<open>.get\<close> is called
  on them); the record has exactly these.
\<close>

record GraphMutationEvent =
  vertex_id :: "string option"
  event_type :: string
  step :: int
  timing :: string
  changes :: pydict
  state_after :: pydict

text \<open>The dataclass \<open>EventBasedRecording\<close>.\<close>

record EventBasedRecording =
  flow_name :: string
  events :: "GraphMutationEvent list"
  component_executions :: "string list"

text \<open>
  The attributes of an \<open>EventRecorder\<close> instance (\<open>self.flow_name\<close>, \<open>self.events\<close>,
  \<open>self.component_executions\<close>).
\<close>

record EventRecorder =
  self_flow_name :: string
  self_events :: "GraphMutationEvent list"
  self_component_executions :: "string list"

text \<open>
  The dictionaries built by \<open>get_queue_evolution\<close> have the fixed keys \<open>"step"\<close>,
  \<open>"event"\<close>, \<open>"queue"\<close> and \<open>"changes"\<close>; those of \<open>get_dependency_changes\<close> the keys
  \<open>"step"\<close>, \<open>"vertex"\<close>, \<open>"predecessor"\<close>, \<open>"run_predecessors_changed"\<close> and
  \<open>"run_map_changed"\<close>. A record with one field per key stands for each.
\<close>

record queue_entry =
  qe_step :: int
  qe_event :: string
  qe_queue :: pyval
  qe_changes :: pydict

record dependency_entry =
  de_step :: int
  de_vertex :: "string option"
  de_predecessor :: pyval
  de_run_predecessors_changed :: pyval
  de_run_map_changed :: pyval

subsection \<open>EventBasedRecording\<close>

definition get_events_for_vertex ::
  "EventBasedRecording \<Rightarrow> string \<Rightarrow> GraphMutationEvent list" where
  "get_events_for_vertex self vid = [e \<leftarrow> events self. vertex_id e = Some vid]"

definition get_events_by_type ::
  "EventBasedRecording \<Rightarrow> string \<Rightarrow> GraphMutationEvent list" where
  "get_events_by_type self ty = [e \<leftarrow> events self. event_type e = ty]"

text \<open>
  \<open>list.sort(key=...)\<close> is a stable sort; so is \<open>sort_key\<close> (insertion from the
  right, each element placed before the first one whose key is not smaller).
\<close>

definition get_queue_evolution :: "EventBasedRecording \<Rightarrow> queue_entry list" where
  "get_queue_evolution self =
     (let queue_events =
            get_events_by_type self ''queue_extended'' @ get_events_by_type self ''queue_dequeued'';
          queue_events = sort_key step queue_events
      in map (\<lambda>event.
                \<lparr> qe_step = step event,
                  qe_event = event_type event,
                  qe_queue = dict_get (state_after event) ''queue'' (PList []),
                  qe_changes = changes event \<rparr>)
           [event \<leftarrow> queue_events. timing event = ''after''])"

definition get_dependency_changes :: "EventBasedRecording \<Rightarrow> dependency_entry list" where
  "get_dependency_changes self =
     (let dep_events = get_events_by_type self ''dependency_added''
      in map (\<lambda>event.
                \<lparr> de_step = step event,
                  de_vertex = vertex_id event,
                  de_predecessor = dict_get (changes event) ''predecessor'' PNone,
                  de_run_predecessors_changed =
                    dict_get (changes event) ''run_predecessors_changed'' PNone,
                  de_run_map_changed = dict_get (changes event) ''run_map_changed'' PNone \<rparr>)
           [event \<leftarrow> dep_events. timing event = ''after''])"

subsection \<open>EventRecorder\<close>

definition EventRecorder_init :: "string \<Rightarrow> EventRecorder" where
  "EventRecorder_init name =
     \<lparr> self_flow_name = name, self_events = [], self_component_executions = [] \<rparr>"

text \<open>
  \<open>event.vertex_id and ...\<close>: \<open>None\<close> and the empty string are falsy, every other
  string is truthy.
\<close>

definition on_event :: "EventRecorder \<Rightarrow> GraphMutationEvent \<Rightarrow> EventRecorder" where
  "on_event self event =
     (let self = self\<lparr> self_events := self_events self @ [event] \<rparr>
      in case vertex_id event of
           None \<Rightarrow> self
         | Some vid \<Rightarrow>
             if vid \<noteq> [] \<and> vid \<notin> set (self_component_executions self)
             then self\<lparr> self_component_executions := self_component_executions self @ [vid] \<rparr>
             else self)"

definition get_recording :: "EventRecorder \<Rightarrow> EventBasedRecording" where
  "get_recording self =
     \<lparr> flow_name = self_flow_name self,
       events = self_events self,
       component_executions = self_component_executions self \<rparr>"

text \<open>Delivering a sequence of events, one \<open>on_event\<close> call each, in order.\<close>

definition deliver :: "EventRecorder \<Rightarrow> GraphMutationEvent list \<Rightarrow> EventRecorder" where
  "deliver self evs = foldl on_event self evs"

subsection \<open>EventRecorder over a store of event objects\<close>

text \<open>
  Python passes the event to \<open>on_event\<close> by reference, and \<open>self.events\<close> holds
  references to the very objects the graph engine created. To speak about what a call
  does to those objects, the same method is written once more over an explicit store:
  \<open>objects\<close> maps a reference to the event object it denotes, and the recorder holds
  references. A reference that denotes no object cannot be passed in Python; the model
  returns \<open>None\<close> for it.
\<close>

type_synonym ref = nat

record recorder_store =
  objects :: "ref \<rightharpoonup> GraphMutationEvent"
  st_flow_name :: string
  st_events :: "ref list"
  st_component_executions :: "string list"

definition on_event_store :: "recorder_store \<Rightarrow> ref \<Rightarrow> recorder_store option" where
  "on_event_store s p =
     (case objects s p of
        None \<Rightarrow> None
      | Some event \<Rightarrow>
          (let s = s\<lparr> st_events := st_events s @ [p] \<rparr>
           in case vertex_id event of
                None \<Rightarrow> Some s
              | Some vid \<Rightarrow>
                  if vid \<noteq> [] \<and> vid \<notin> set (st_component_executions s)
                  then Some (s\<lparr> st_component_executions := st_component_executions s @ [vid] \<rparr>)
                  else Some s))"

text \<open>The recorder a store denotes: every reference replaced by its object.\<close>

definition recorder_of :: "recorder_store \<Rightarrow> EventRecorder" where
  "recorder_of s =
     \<lparr> self_flow_name = st_flow_name s,
       self_events = map (\<lambda>p. the (objects s p)) (st_events s),
       self_component_executions = st_component_executions s \<rparr>"

section \<open>langflow/api/utils/mcp/config_utils.py\<close>

definition ALL_INTERFACES_HOST :: string where
  "ALL_INTERFACES_HOST = ''0.0.0.0''"

subsection \<open>MCPServerValidationResult\<close>

text \<open>
  A server configuration is a dictionary of which the code reads the key \<open>"args"\<close>, a
  list of strings; \<open>config_args\<close> is \<open>None\<close> when the key is absent.
\<close>

record mcp_server_config =
  config_args :: "string list option"

record MCPServerValidationResult =
  server_exists :: bool
  project_id_matches :: bool
  server_name :: string
  existing_config :: "mcp_server_config option"
  conflict_message :: string

text \<open>
  The constructor takes keyword-only parameters. \<open>server_exists\<close> and
  \<open>project_id_matches\<close> have no default value, so a call that leaves one out raises
  \<open>TypeError\<close>; the other three have defaults. An argument that the call does not pass
  is \<open>None\<close> here (for \<open>existing_config\<close>, whose default is Python's \<open>None\<close>, the two
  coincide).
\<close>

definition MCPServerValidationResult_init ::
  "bool option \<Rightarrow> bool option \<Rightarrow> string option \<Rightarrow> mcp_server_config option \<Rightarrow> string option
     \<Rightarrow> exn + MCPServerValidationResult" where
  "MCPServerValidationResult_init server_exists_arg project_id_matches_arg server_name_arg
       existing_config_arg conflict_message_arg =
     (case (server_exists_arg, project_id_matches_arg) of
        (None, None) \<Rightarrow>
          Inl (TypeError ''missing 2 required keyword-only arguments: server_exists and project_id_matches'')
      | (None, Some _) \<Rightarrow>
          Inl (TypeError ''missing 1 required keyword-only argument: server_exists'')
      | (Some _, None) \<Rightarrow>
          Inl (TypeError ''missing 1 required keyword-only argument: project_id_matches'')
      | (Some se, Some pm) \<Rightarrow>
          Inr \<lparr> server_exists = se,
                project_id_matches = pm,
                server_name = (case server_name_arg of None \<Rightarrow> [] | Some n \<Rightarrow> n),
                existing_config = existing_config_arg,
                conflict_message = (case conflict_message_arg of None \<Rightarrow> [] | Some m \<Rightarrow> m) \<rparr>)"

definition has_conflict :: "MCPServerValidationResult \<Rightarrow> bool" where
  "has_conflict self \<longleftrightarrow> server_exists self \<and> \<not> project_id_matches self"

definition should_skip :: "MCPServerValidationResult \<Rightarrow> bool" where
  "should_skip self \<longleftrightarrow> server_exists self \<and> project_id_matches self"

definition should_proceed :: "MCPServerValidationResult \<Rightarrow> bool" where
  "should_proceed self \<longleftrightarrow> \<not> server_exists self \<or> project_id_matches self"

subsection \<open>validate_mcp_server_for_project\<close>

text \<open>
  \<open>sanitize_mcp_name\<close> and \<open>MAX_MCP_SERVER_NAME_LENGTH\<close> are imported from modules that
  are not among the sources: they are parameters. The awaited \<open>get_server_list\<close> is
  given by its outcome, an exception or the dictionary it returns, of which only the
  entry \<open>"mcpServers"\<close> is read (\<open>None\<close> when the key is absent). The logger call in the
  handler has no effect on the result. \<open>user\<close>, \<open>session\<close> and the two services are
  only passed on to \<open>get_server_list\<close>.

  \<open>except_Exception\<close> says which exceptions the clause \<open>except Exception\<close> catches.
  \<open>validate_try_body\<close> is the body of the \<open>try\<close> statement, \<open>conflict_message_for\<close> the
  message chosen by the operation.
\<close>

definition except_Exception :: "exn \<Rightarrow> bool" where
  "except_Exception e = (case e of BaseException _ \<Rightarrow> False | _ \<Rightarrow> True)"

definition quoted :: "string \<Rightarrow> string" where
  "quoted s = [CHR 0x27] @ s @ [CHR 0x27]"

definition conflict_message_for :: "string \<Rightarrow> string \<Rightarrow> string \<Rightarrow> UUID \<Rightarrow> string" where
  "conflict_message_for operation name project_name project_id =
     (if operation = ''create'' then
        ''MCP server name conflict: '' @ quoted name @ '' already exists ''
        @ ''for a different project. Cannot create MCP server for project ''
        @ quoted project_name @ '' (ID: '' @ str_uuid project_id @ '')''
      else if operation = ''update'' then
        ''MCP server name conflict: '' @ quoted name @ '' exists for a different project. ''
        @ ''Cannot update MCP server for project '' @ quoted project_name
        @ '' (ID: '' @ str_uuid project_id @ '')''
      else if operation = ''delete'' then
        ''MCP server '' @ quoted name @ '' exists for a different project. ''
        @ ''Cannot delete MCP server for project '' @ quoted project_name
        @ '' (ID: '' @ str_uuid project_id @ '')''
      else [])"

type_synonym server_list = "(string \<rightharpoonup> mcp_server_config) option"

definition validate_try_body ::
  "string \<Rightarrow> UUID \<Rightarrow> string \<Rightarrow> exn + server_list \<Rightarrow> string \<Rightarrow> exn + MCPServerValidationResult" where
  "validate_try_body name project_id project_name get_server_list operation =
     (case get_server_list of
        Inl e \<Rightarrow> Inl e
      | Inr existing_servers \<Rightarrow>
          (let mcp_servers = (case existing_servers of None \<Rightarrow> Map.empty | Some m \<Rightarrow> m)
           in case mcp_servers name of
                None \<Rightarrow> MCPServerValidationResult_init (Some False) None (Some name) None None
              | Some existing_server_config \<Rightarrow>
                  (let existing_args =
                         (case config_args existing_server_config of None \<Rightarrow> [] | Some a \<Rightarrow> a);
                       project_id_matches =
                         (existing_args \<noteq> [] \<and> contains_str (str_uuid project_id) (last existing_args));
                       conflict_message =
                         (if \<not> project_id_matches
                          then conflict_message_for operation name project_name project_id
                          else [])
                   in MCPServerValidationResult_init (Some True) (Some project_id_matches)
                        (Some name) (Some existing_server_config) (Some conflict_message))))"

definition validate_mcp_server_for_project ::
  "(string \<Rightarrow> string) \<Rightarrow> int \<Rightarrow> UUID \<Rightarrow> string \<Rightarrow> exn + server_list \<Rightarrow> string
     \<Rightarrow> exn + MCPServerValidationResult" where
  "validate_mcp_server_for_project sanitize_mcp_name MAX_MCP_SERVER_NAME_LENGTH
       project_id project_name get_server_list operation =
     (let name = ''lf-'' @ py_slice_to (sanitize_mcp_name project_name) (MAX_MCP_SERVER_NAME_LENGTH - 4)
      in case validate_try_body name project_id project_name get_server_list operation of
           Inr result \<Rightarrow> Inr result
         | Inl e \<Rightarrow>
             if except_Exception e
             then MCPServerValidationResult_init (Some False) None (Some name) None None
             else Inl e)"

subsection \<open>get_url_by_os and get_project_sse_url\<close>

text \<open>
  What \<open>get_url_by_os\<close> reads from its environment: \<open>platform.system()\<close>,
  \<open>platform.uname().release\<close>, and the outcome of running \<open>/usr/bin/hostname -I\<close>,
  which is either an \<open>OSError\<close> or a return code with the standard output.
\<close>

datatype proc_result = ProcOSError string | ProcCompleted int string

record os_env =
  platform_system :: string
  uname_release :: string
  hostname_I :: proc_result

definition is_wsl :: "os_env \<Rightarrow> bool" where
  "is_wsl env \<longleftrightarrow>
     platform_system env = ''Linux'' \<and> contains_str ''microsoft'' (py_lower (uname_release env))"

definition get_url_by_os :: "os_env \<Rightarrow> string \<Rightarrow> int \<Rightarrow> string \<Rightarrow> exn + string" where
  "get_url_by_os env host port url =
     (if is_wsl env \<and> host \<in> {''localhost'', ''127.0.0.1''} then
        (case hostname_I env of
           ProcOSError _ \<Rightarrow> Inr url
         | ProcCompleted returncode stdout \<Rightarrow>
             if returncode = 0 \<and> py_strip_with is_space_bytes stdout \<noteq> [] then
               (case py_split_first (py_strip_with is_space stdout) of
                  Inl e \<Rightarrow> Inl e
                | Inr wsl_ip \<Rightarrow>
                    Inr (py_replace (''http://'' @ host @ '':'' @ str_int port)
                           (''http://'' @ wsl_ip @ '':'' @ str_int port) url))
             else Inr url)
      else Inr url)"

text \<open>
  The settings object, read with \<open>getattr\<close> and a default: \<open>settings_host\<close> is \<open>None\<close>
  when the attribute \<open>host\<close> is absent; the two ports are \<open>None\<close> when absent or
  \<open>None\<close>. \<open>a or b\<close> takes \<open>a\<close> when it is truthy, and an integer is truthy when it is
  not zero. \<open>server_host\<close>, \<open>server_port\<close> and \<open>connect_host\<close> are the local variables
  \<open>server_host\<close>, \<open>server_port\<close> and \<open>host\<close> of \<open>get_project_sse_url\<close>.
\<close>

record settings =
  settings_host :: "string option"
  settings_runtime_port :: "int option"
  settings_port :: "int option"

definition truthy_int :: "int option \<Rightarrow> bool" where
  "truthy_int x = (case x of None \<Rightarrow> False | Some n \<Rightarrow> n \<noteq> 0)"

definition server_host :: "settings \<Rightarrow> string" where
  "server_host st = (case settings_host st of None \<Rightarrow> ''localhost'' | Some h \<Rightarrow> h)"

definition server_port :: "settings \<Rightarrow> int" where
  "server_port st =
     (if truthy_int (settings_runtime_port st) then the (settings_runtime_port st)
      else if truthy_int (settings_port st) then the (settings_port st)
      else 7860)"

definition connect_host :: "settings \<Rightarrow> string" where
  "connect_host st =
     (if server_host st = ALL_INTERFACES_HOST then ''localhost'' else server_host st)"

definition get_project_sse_url :: "os_env \<Rightarrow> settings \<Rightarrow> UUID \<Rightarrow> exn + string" where
  "get_project_sse_url env st project_id =
     (let host = connect_host st;
          port = server_port st;
          base_url = py_rstrip ''/'' (''http://'' @ host @ '':'' @ str_int port);
          project_sse_url = base_url @ ''/api/v1/mcp/project/'' @ str_uuid project_id @ ''/sse''
      in get_url_by_os env host port project_sse_url)"

section \<open>lfx/components/processing/prompt.py\<close>

text \<open>
  Of a \<open>PromptComponent\<close>, \<open>build_prompt\<close> reads the attribute \<open>mode\<close> (\<open>comp_mode\<close> is
  \<open>None\<close> when the component has no such attribute) and \<open>_attributes\<close>, and writes
  \<open>status\<close>. \<open>Message.from_template_and_variables\<close> belongs to a module that is not
  among the sources: it is a parameter, called with the template format and the
  attributes, and may raise. Of the message it returns, only \<open>text\<close> is read.
\<close>

record Message =
  msg_text :: string

record PromptComponent =
  comp_mode :: "pyval option"
  comp_attributes :: pydict
  comp_status :: string

definition template_format_of :: "PromptComponent \<Rightarrow> string" where
  "template_format_of self =
     (let mode = (case comp_mode self of None \<Rightarrow> PStr ''{variable}'' | Some m \<Rightarrow> m)
      in if mode = PStr ''{{variable}}'' then ''mustache'' else ''f-string'')"

definition build_prompt ::
  "(string \<Rightarrow> pydict \<Rightarrow> exn + Message) \<Rightarrow> PromptComponent \<Rightarrow> exn + (PromptComponent \<times> Message)" where
  "build_prompt from_template_and_variables self =
     (case from_template_and_variables (template_format_of self) (comp_attributes self) of
        Inl e \<Rightarrow> Inl e
      | Inr prompt \<Rightarrow> Inr (self\<lparr> comp_status := msg_text prompt \<rparr>, prompt))"

section \<open>Notions of the specification\<close>

text \<open>
  These definitions follow the words of the specification, not the code: they say what
  the recorder is expected to hold, and the theorems compare the code with them.

  \<open>delivered_ids\<close> lists, in delivery order, the vertex ids of the events that have a
  non-empty one. \<open>first_occurrences\<close> keeps the first occurrence of every element of a
  list and drops the later ones. \<open>component_invariant\<close> says that the recorder's
  \<open>component_executions\<close> is the list of first occurrences of the non-empty vertex ids
  of the events it has recorded.
\<close>

definition delivered_ids :: "GraphMutationEvent list \<Rightarrow> string list" where
  "delivered_ids evs =
     List.map_filter
       (\<lambda>e. case vertex_id e of None \<Rightarrow> None | Some vid \<Rightarrow> if vid \<noteq> [] then Some vid else None) evs"

fun first_occurrences :: "'a list \<Rightarrow> 'a list" where
  "first_occurrences [] = []"
| "first_occurrences (x # xs) = x # [y \<leftarrow> first_occurrences xs. y \<noteq> x]"

definition component_invariant :: "EventRecorder \<Rightarrow> bool" where
  "component_invariant self \<longleftrightarrow>
     self_component_executions self = first_occurrences (delivered_ids (self_events self))"

text \<open>
  \<open>sse_path\<close> is the path of a project's SSE endpoint, \<open>sse_url\<close> the URL with that
  path on a given host and port.
\<close>

definition sse_path :: "UUID \<Rightarrow> string" where
  "sse_path project_id = ''/api/v1/mcp/project/'' @ str_uuid project_id @ ''/sse''"

definition sse_url :: "string \<Rightarrow> int \<Rightarrow> UUID \<Rightarrow> string" where
  "sse_url host port project_id = ''http://'' @ host @ '':'' @ str_int port @ sse_path project_id"

section \<open>Sample inputs\<close>

text \<open>
  Concrete events on which the theorems that carry a hypothesis are exercised. The
  fourth event repeats the vertex of the first, the second has no vertex, and the last
  has the empty string as its vertex id.
\<close>

definition sample_event :: "string option \<Rightarrow> string \<Rightarrow> int \<Rightarrow> string \<Rightarrow> GraphMutationEvent" where
  "sample_event vid ty st tm =
     \<lparr> vertex_id = vid, event_type = ty, step = st, timing = tm,
       changes = Map.empty, state_after = [''queue'' \<mapsto> PList [PStr ''A'']] \<rparr>"

definition sample_events :: "GraphMutationEvent list" where
  "sample_events =
     [ sample_event (Some ''A'') ''queue_extended'' 2 ''after'',
       sample_event None ''queue_dequeued'' 1 ''after'',
       sample_event (Some ''B'') ''dependency_added'' 3 ''after'',
       sample_event (Some ''A'') ''queue_dequeued'' 4 ''before'',
       sample_event (Some []) ''queue_extended'' 0 ''after'' ]"

text \<open>
  Events with changes: a dependency event that names its predecessor and says that the
  run predecessors changed (and has no \<open>run_map_changed\<close>), a queue event, a dependency
  event with timing \<open>before\<close>, and a dependency event whose changes are empty.
\<close>

definition sample_dependency_events :: "GraphMutationEvent list" where
  "sample_dependency_events =
     [ (sample_event (Some ''B'') ''dependency_added'' 3 ''after'')
         \<lparr> changes := [''predecessor'' \<mapsto> PStr ''A'', ''run_predecessors_changed'' \<mapsto> PBool True] \<rparr>,
       (sample_event (Some ''A'') ''queue_extended'' 4 ''after'')
         \<lparr> changes := [''predecessor'' \<mapsto> PStr ''Z''] \<rparr>,
       (sample_event (Some ''C'') ''dependency_added'' 5 ''before'')
         \<lparr> changes := [''predecessor'' \<mapsto> PStr ''B''] \<rparr>,
       sample_event None ''dependency_added'' 6 ''after'' ]"

text \<open>
  Environments and settings: a WSL kernel whose \<open>hostname -I\<close> prints two addresses, a
  plain Linux kernel, and settings that bind to all interfaces with no port set.
\<close>

definition sample_wsl_env :: os_env where
  "sample_wsl_env =
     \<lparr> platform_system = ''Linux'',
       uname_release = ''5.15.90.1-microsoft-standard-WSL2'',
       hostname_I = ProcCompleted 0 ''172.20.0.5 10.0.0.1 '' \<rparr>"

definition sample_linux_env :: os_env where
  "sample_linux_env =
     \<lparr> platform_system = ''Linux'',
       uname_release = ''6.8.0-45-generic'',
       hostname_I = ProcCompleted 0 ''192.168.1.10 '' \<rparr>"

definition sample_settings :: settings where
  "sample_settings =
     \<lparr> settings_host = Some ''0.0.0.0'', settings_runtime_port = None, settings_port = None \<rparr>"

section \<open>The event recorder: what is recorded\<close>

lemma self_events_on_event: "self_events (on_event r e) = self_events r @ [e]"
  by (simp add: on_event_def Let_def split: option.split)

lemma self_flow_name_on_event: "self_flow_name (on_event r e) = self_flow_name r"
  by (simp add: on_event_def Let_def split: option.split)

lemma self_events_deliver: "self_events (deliver r evs) = self_events r @ evs"
  unfolding deliver_def
  by (induction evs arbitrary: r) (simp_all add: self_events_on_event)

text \<open>
  C1. Every sequence of events delivered to a fresh \<open>EventRecorder\<close>, one \<open>on_event\<close>
  call per event, is what \<open>get_recording\<close> returns in its \<open>events\<close> field: the same
  events, in delivery order, none dropped, repeated, moved or replaced.
\<close>

theorem recorder_replays_events:
  "events (get_recording (deliver (EventRecorder_init name) evs)) = evs"
  by (simp add: get_recording_def self_events_deliver EventRecorder_init_def)

section \<open>The recording: reconstructions\<close>

lemma mset_queue_events:
  "mset (sort_key step (get_events_by_type r ''queue_extended'' @ get_events_by_type r ''queue_dequeued''))
   = {# e \<in># mset (events r). event_type e = ''queue_extended'' \<or> event_type e = ''queue_dequeued'' #}"
proof -
  have "mset [e \<leftarrow> xs. event_type e = ''queue_extended''] + mset [e \<leftarrow> xs. event_type e = ''queue_dequeued'']
        = {# e \<in># mset xs. event_type e = ''queue_extended'' \<or> event_type e = ''queue_dequeued'' #}" for xs :: "GraphMutationEvent list"
    by (induction xs) auto
  then show ?thesis by (simp add: get_events_by_type_def)
qed

text \<open>
  C2. \<open>get_queue_evolution\<close> has one entry for each recorded event of type
  \<open>queue_extended\<close> or \<open>queue_dequeued\<close> whose timing is \<open>after\<close>, as many times as the
  event is recorded, and nothing else. The entry of an event carries the event's step,
  its event type, the value under \<open>queue\<close> in its \<open>state_after\<close> (the empty list when
  there is none) and its changes. The entries come in nondecreasing order of step.
\<close>

theorem queue_evolution_entries:
  "mset (get_queue_evolution r) =
     image_mset
       (\<lambda>e. \<lparr> qe_step = step e,
               qe_event = event_type e,
               qe_queue = (case state_after e ''queue'' of None \<Rightarrow> PList [] | Some q \<Rightarrow> q),
               qe_changes = changes e \<rparr>)
       {# e \<in># mset (events r).
          (event_type e = ''queue_extended'' \<or> event_type e = ''queue_dequeued'') \<and> timing e = ''after'' #}
   \<and> sorted (map qe_step (get_queue_evolution r))"
proof
  let ?qs = "sort_key step (get_events_by_type r ''queue_extended'' @ get_events_by_type r ''queue_dequeued'')"
  let ?entry = "\<lambda>e. \<lparr> qe_step = step e,
               qe_event = event_type e,
               qe_queue = (case state_after e ''queue'' of None \<Rightarrow> PList [] | Some q \<Rightarrow> q),
               qe_changes = changes e \<rparr>"
  have "mset (get_queue_evolution r) = image_mset ?entry (filter_mset (\<lambda>e. timing e = ''after'') (mset ?qs))"
    by (simp add: get_queue_evolution_def Let_def dict_get_def)
  also have "\<dots> = image_mset ?entry
       {# e \<in># mset (events r).
          (event_type e = ''queue_extended'' \<or> event_type e = ''queue_dequeued'') \<and> timing e = ''after'' #}"
    by (simp only: mset_queue_events filter_filter_mset)
  finally show "mset (get_queue_evolution r) = \<dots>" .
next
  let ?qs = "sort_key step (get_events_by_type r ''queue_extended'' @ get_events_by_type r ''queue_dequeued'')"
  have "map qe_step (get_queue_evolution r) = map step (filter (\<lambda>e. timing e = ''after'') ?qs)"
    by (simp add: get_queue_evolution_def Let_def comp_def)
  moreover have "sorted (map step (filter (\<lambda>e. timing e = ''after'') ?qs))"
    by (rule sorted_filter) (rule sorted_sort_key)
  ultimately show "sorted (map qe_step (get_queue_evolution r))" by simp
qed

text \<open>On the sample events: the three \<open>after\<close> queue events, by step.\<close>

lemma queue_evolution_sample:
  "map (\<lambda>q. (qe_step q, qe_event q, qe_queue q))
     (get_queue_evolution \<lparr> flow_name = ''f'', events = sample_events, component_executions = [] \<rparr>)
   = [ (0, ''queue_extended'', PList [PStr ''A'']),
       (1, ''queue_dequeued'', PList [PStr ''A'']),
       (2, ''queue_extended'', PList [PStr ''A'']) ]"
  by (simp add: get_queue_evolution_def get_events_by_type_def sample_events_def sample_event_def
        dict_get_def)

text \<open>
  C3. \<open>get_dependency_changes\<close> has one entry for each recorded event of type
  \<open>dependency_added\<close> whose timing is \<open>after\<close>, in recorded order. The entry of an event
  carries the event's step, its vertex id, and the values under \<open>predecessor\<close>,
  \<open>run_predecessors_changed\<close> and \<open>run_map_changed\<close> in its changes (\<open>None\<close> for a key
  that is absent). The reconstruction is complete and exact with respect to the
  recording: there are as many entries as recorded \<open>dependency_added\<close> events with
  timing \<open>after\<close>, every such event has its entry in the result, and every entry of the
  result is the entry of such an event, so that an event of another type or timing
  gives none.
\<close>

theorem dependency_changes_entries:
  "get_dependency_changes r =
     map (\<lambda>e. \<lparr> de_step = step e,
                 de_vertex = vertex_id e,
                 de_predecessor = (case changes e ''predecessor'' of None \<Rightarrow> PNone | Some v \<Rightarrow> v),
                 de_run_predecessors_changed =
                   (case changes e ''run_predecessors_changed'' of None \<Rightarrow> PNone | Some v \<Rightarrow> v),
                 de_run_map_changed =
                   (case changes e ''run_map_changed'' of None \<Rightarrow> PNone | Some v \<Rightarrow> v) \<rparr>)
       [e \<leftarrow> events r. event_type e = ''dependency_added'' \<and> timing e = ''after'']
   \<and> length (get_dependency_changes r)
       = length [e \<leftarrow> events r. event_type e = ''dependency_added'' \<and> timing e = ''after'']
   \<and> (\<forall>e \<in> set (events r).
         event_type e = ''dependency_added'' \<and> timing e = ''after'' \<longrightarrow>
           \<lparr> de_step = step e,
             de_vertex = vertex_id e,
             de_predecessor = (case changes e ''predecessor'' of None \<Rightarrow> PNone | Some v \<Rightarrow> v),
             de_run_predecessors_changed =
               (case changes e ''run_predecessors_changed'' of None \<Rightarrow> PNone | Some v \<Rightarrow> v),
             de_run_map_changed =
               (case changes e ''run_map_changed'' of None \<Rightarrow> PNone | Some v \<Rightarrow> v) \<rparr>
           \<in> set (get_dependency_changes r))
   \<and> (\<forall>d \<in> set (get_dependency_changes r).
         \<exists>e \<in> set (events r).
           event_type e = ''dependency_added'' \<and> timing e = ''after''
           \<and> de_step d = step e
           \<and> de_vertex d = vertex_id e
           \<and> de_predecessor d = (case changes e ''predecessor'' of None \<Rightarrow> PNone | Some v \<Rightarrow> v)
           \<and> de_run_predecessors_changed d
               = (case changes e ''run_predecessors_changed'' of None \<Rightarrow> PNone | Some v \<Rightarrow> v)
           \<and> de_run_map_changed d
               = (case changes e ''run_map_changed'' of None \<Rightarrow> PNone | Some v \<Rightarrow> v))"
proof -
  let ?entry = "\<lambda>e. \<lparr> de_step = step e,
                 de_vertex = vertex_id e,
                 de_predecessor = (case changes e ''predecessor'' of None \<Rightarrow> PNone | Some v \<Rightarrow> v),
                 de_run_predecessors_changed =
                   (case changes e ''run_predecessors_changed'' of None \<Rightarrow> PNone | Some v \<Rightarrow> v),
                 de_run_map_changed =
                   (case changes e ''run_map_changed'' of None \<Rightarrow> PNone | Some v \<Rightarrow> v) \<rparr>"
  let ?deps = "[e \<leftarrow> events r. event_type e = ''dependency_added'' \<and> timing e = ''after'']"
  have eq: "get_dependency_changes r = map ?entry ?deps"
    by (simp add: get_dependency_changes_def get_events_by_type_def dict_get_def conj_commute)
  have len: "length (get_dependency_changes r) = length ?deps"
    by (simp only: eq length_map)
  have complete: "\<forall>e \<in> set (events r).
         event_type e = ''dependency_added'' \<and> timing e = ''after'' \<longrightarrow>
           ?entry e \<in> set (get_dependency_changes r)"
    by (simp only: eq) auto
  have exact: "\<forall>d \<in> set (get_dependency_changes r).
         \<exists>e \<in> set (events r).
           event_type e = ''dependency_added'' \<and> timing e = ''after''
           \<and> de_step d = step e
           \<and> de_vertex d = vertex_id e
           \<and> de_predecessor d = (case changes e ''predecessor'' of None \<Rightarrow> PNone | Some v \<Rightarrow> v)
           \<and> de_run_predecessors_changed d
               = (case changes e ''run_predecessors_changed'' of None \<Rightarrow> PNone | Some v \<Rightarrow> v)
           \<and> de_run_map_changed d
               = (case changes e ''run_map_changed'' of None \<Rightarrow> PNone | Some v \<Rightarrow> v)"
    by (simp only: eq) auto
  show ?thesis
    using eq len complete exact by (intro conjI)
qed

theorem dependency_changes_entries_witness:
  "get_dependency_changes
     \<lparr> flow_name = ''f'', events = sample_dependency_events, component_executions = [] \<rparr>
   = [ \<lparr> de_step = 3, de_vertex = Some ''B'', de_predecessor = PStr ''A'',
         de_run_predecessors_changed = PBool True, de_run_map_changed = PNone \<rparr>,
       \<lparr> de_step = 6, de_vertex = None, de_predecessor = PNone,
         de_run_predecessors_changed = PNone, de_run_map_changed = PNone \<rparr> ]
   \<and> length [e \<leftarrow> sample_dependency_events.
               event_type e = ''dependency_added'' \<and> timing e = ''after''] = 2
   \<and> \<lparr> de_step = 3, de_vertex = Some ''B'', de_predecessor = PStr ''A'',
         de_run_predecessors_changed = PBool True, de_run_map_changed = PNone \<rparr>
       \<in> set (get_dependency_changes
                \<lparr> flow_name = ''f'', events = sample_dependency_events, component_executions = [] \<rparr>)"
  using dependency_changes_entries
    [of "\<lparr> flow_name = ''f'', events = sample_dependency_events, component_executions = [] \<rparr>"]
  by (simp add: sample_dependency_events_def sample_event_def)

text \<open>On the first sample events: the one dependency event; its changes have none of the keys.\<close>

lemma dependency_changes_sample:
  "get_dependency_changes \<lparr> flow_name = ''f'', events = sample_events, component_executions = [] \<rparr>
   = [ \<lparr> de_step = 3, de_vertex = Some ''B'', de_predecessor = PNone,
         de_run_predecessors_changed = PNone, de_run_map_changed = PNone \<rparr> ]"
  by (simp add: get_dependency_changes_def get_events_by_type_def sample_events_def sample_event_def
        dict_get_def)

lemma count_list_filter:
  "count_list (filter P xs) x = (if P x then count_list xs x else 0)"
  by (induction xs) auto

text \<open>
  C4. \<open>get_events_for_vertex v\<close> returns exactly the recorded events whose vertex id
  is \<open>v\<close>: the result is a subsequence of the recorded events (so their order is kept
  and nothing is added), every event in it has vertex id \<open>v\<close>, every recorded event
  with vertex id \<open>v\<close> occurs in it as often as it was recorded, and an event with
  another vertex id, or with none, never occurs in it.
\<close>

theorem events_for_vertex_exact:
  "subseq (get_events_for_vertex r v) (events r)
   \<and> (\<forall>e \<in> set (get_events_for_vertex r v). vertex_id e = Some v)
   \<and> (\<forall>e. vertex_id e = Some v \<longrightarrow>
          count_list (get_events_for_vertex r v) e = count_list (events r) e)
   \<and> (\<forall>e. vertex_id e \<noteq> Some v \<longrightarrow> e \<notin> set (get_events_for_vertex r v))"
  by (simp add: get_events_for_vertex_def count_list_filter)

theorem events_for_vertex_exact_witness:
  "get_events_for_vertex \<lparr> flow_name = ''f'', events = sample_events, component_executions = [] \<rparr> ''A''
     = [ sample_event (Some ''A'') ''queue_extended'' 2 ''after'',
         sample_event (Some ''A'') ''queue_dequeued'' 4 ''before'' ]
   \<and> subseq
        (get_events_for_vertex \<lparr> flow_name = ''f'', events = sample_events, component_executions = [] \<rparr> ''A'')
        sample_events
   \<and> vertex_id (sample_event (Some ''A'') ''queue_extended'' 2 ''after'') = Some ''A''
   \<and> count_list
        (get_events_for_vertex \<lparr> flow_name = ''f'', events = sample_events, component_executions = [] \<rparr> ''A'')
        (sample_event (Some ''A'') ''queue_extended'' 2 ''after'') = 1
   \<and> vertex_id (sample_event None ''queue_dequeued'' 1 ''after'') \<noteq> Some ''A''
   \<and> sample_event None ''queue_dequeued'' 1 ''after''
        \<notin> set (get_events_for_vertex \<lparr> flow_name = ''f'', events = sample_events, component_executions = [] \<rparr> ''A'')"
  using events_for_vertex_exact
    [of "\<lparr> flow_name = ''f'', events = sample_events, component_executions = [] \<rparr>" "''A''"]
  by (simp add: get_events_for_vertex_def sample_events_def sample_event_def)

section \<open>The event recorder: observation leaves the events alone\<close>

text \<open>
  C5. A call of \<open>on_event\<close> changes no event object: the store of event objects is the
  same after the call as before it, so every field of the delivered event (and of every
  event recorded earlier) is unchanged. The recorder's \<open>flow_name\<close> is unchanged too;
  what changes is the recorder's \<open>events\<close> and \<open>component_executions\<close>, and they change
  as \<open>on_event\<close> over values says. The call returns whenever the reference denotes an
  event.
\<close>

theorem on_event_leaves_events_unchanged:
  assumes "objects s p = Some event"
  shows "\<exists>s'. on_event_store s p = Some s'
           \<and> objects s' = objects s
           \<and> st_flow_name s' = st_flow_name s
           \<and> recorder_of s' = on_event (recorder_of s) event"
  using assms
  by (auto simp: on_event_store_def on_event_def recorder_of_def Let_def split: option.split)

theorem on_event_leaves_events_unchanged_witness:
  "objects \<lparr> objects = [0 \<mapsto> sample_event (Some ''A'') ''queue_extended'' 2 ''after''],
             st_flow_name = ''f'', st_events = [], st_component_executions = [] \<rparr> 0
     = Some (sample_event (Some ''A'') ''queue_extended'' 2 ''after'')
   \<and> on_event_store
        \<lparr> objects = [0 \<mapsto> sample_event (Some ''A'') ''queue_extended'' 2 ''after''],
          st_flow_name = ''f'', st_events = [], st_component_executions = [] \<rparr> 0
     = Some \<lparr> objects = [0 \<mapsto> sample_event (Some ''A'') ''queue_extended'' 2 ''after''],
              st_flow_name = ''f'', st_events = [0], st_component_executions = [''A''] \<rparr>"
  using on_event_leaves_events_unchanged
    [of "\<lparr> objects = [0 \<mapsto> sample_event (Some ''A'') ''queue_extended'' 2 ''after''],
            st_flow_name = ''f'', st_events = [], st_component_executions = [] \<rparr>" 0
        "sample_event (Some ''A'') ''queue_extended'' 2 ''after''"]
  by (simp add: on_event_store_def sample_event_def)

section \<open>The event recorder: executed components\<close>

lemma set_first_occurrences: "set (first_occurrences xs) = set xs"
  by (induction xs) auto

lemma distinct_first_occurrences: "distinct (first_occurrences xs)"
  by (induction xs) (auto simp: set_first_occurrences)

lemma first_occurrences_snoc:
  "first_occurrences (xs @ [x]) =
     (if x \<in> set xs then first_occurrences xs else first_occurrences xs @ [x])"
  by (induction xs) (auto simp: set_first_occurrences)

lemma delivered_ids_snoc:
  "delivered_ids (evs @ [e]) =
     delivered_ids evs @
       (case vertex_id e of None \<Rightarrow> [] | Some vid \<Rightarrow> if vid \<noteq> [] then [vid] else [])"
  by (simp add: delivered_ids_def map_filter_def split: option.split)

lemma set_delivered_ids:
  "set (delivered_ids evs) = {vid. vid \<noteq> [] \<and> (\<exists>e \<in> set evs. vertex_id e = Some vid)}"
  by (induction evs rule: rev_induct)
     (auto simp: delivered_ids_snoc delivered_ids_def map_filter_def split: option.splits if_splits)

lemma component_invariant_on_event:
  "component_invariant r \<Longrightarrow> component_invariant (on_event r e)"
  by (auto simp: component_invariant_def on_event_def Let_def delivered_ids_snoc
        first_occurrences_snoc set_first_occurrences split: option.split)

lemma component_invariant_init: "component_invariant (EventRecorder_init name)"
  by (simp add: component_invariant_def EventRecorder_init_def delivered_ids_def map_filter_def)

lemma component_invariant_deliver:
  "component_invariant r \<Longrightarrow> component_invariant (deliver r evs)"
  unfolding deliver_def
  by (induction evs arbitrary: r) (simp_all add: component_invariant_on_event)

text \<open>
  C10. After any sequence of \<open>on_event\<close> calls on a fresh recorder,
  \<open>component_executions\<close> holds the non-empty vertex ids of the delivered events, each
  once, in the order of their first delivery, and nothing else. Every \<open>on_event\<close> call
  preserves this invariant, and preserves the absence of duplicates, from any recorder
  state.
\<close>

theorem component_executions_first_occurrence:
  "self_component_executions (deliver (EventRecorder_init name) evs)
     = first_occurrences (delivered_ids evs)
   \<and> distinct (self_component_executions (deliver (EventRecorder_init name) evs))
   \<and> set (self_component_executions (deliver (EventRecorder_init name) evs))
       = {vid. vid \<noteq> [] \<and> (\<exists>e \<in> set evs. vertex_id e = Some vid)}
   \<and> (component_invariant r \<longrightarrow> component_invariant (on_event r e))
   \<and> (distinct (self_component_executions r) \<longrightarrow>
        distinct (self_component_executions (on_event r e)))"
proof -
  have inv: "component_invariant (deliver (EventRecorder_init name) evs)"
    by (rule component_invariant_deliver) (rule component_invariant_init)
  have ev: "self_events (deliver (EventRecorder_init name) evs) = evs"
    by (simp add: self_events_deliver EventRecorder_init_def)
  have eq: "self_component_executions (deliver (EventRecorder_init name) evs)
     = first_occurrences (delivered_ids evs)"
    using inv ev by (simp add: component_invariant_def)
  have d: "distinct (self_component_executions r) \<longrightarrow>
        distinct (self_component_executions (on_event r e))"
    by (auto simp: on_event_def Let_def split: option.split)
  show ?thesis
    using eq d component_invariant_on_event [of r e]
    by (simp add: distinct_first_occurrences set_first_occurrences set_delivered_ids)
qed

theorem component_executions_first_occurrence_witness:
  "self_component_executions (deliver (EventRecorder_init ''f'') sample_events) = [''A'', ''B'']
   \<and> component_invariant (deliver (EventRecorder_init ''f'') sample_events)
   \<and> component_invariant
        (on_event (deliver (EventRecorder_init ''f'') sample_events)
           (sample_event (Some ''C'') ''queue_extended'' 5 ''after''))
   \<and> distinct (self_component_executions (deliver (EventRecorder_init ''f'') sample_events))
   \<and> distinct (self_component_executions
        (on_event (deliver (EventRecorder_init ''f'') sample_events)
           (sample_event (Some ''A'') ''queue_extended'' 5 ''after'')))"
  using component_executions_first_occurrence
    [of "''f''" sample_events "deliver (EventRecorder_init ''f'') sample_events"
        "sample_event (Some ''C'') ''queue_extended'' 5 ''after''"]
    component_executions_first_occurrence
    [of "''f''" sample_events "deliver (EventRecorder_init ''f'') sample_events"
        "sample_event (Some ''A'') ''queue_extended'' 5 ''after''"]
  by (simp add: deliver_def EventRecorder_init_def on_event_def sample_events_def sample_event_def
        component_invariant_def delivered_ids_def map_filter_def)

section \<open>MCP server validation: the decision properties\<close>

text \<open>
  C6. For every \<open>MCPServerValidationResult\<close>: \<open>should_proceed\<close> holds exactly when
  \<open>has_conflict\<close> does not; \<open>should_skip\<close> implies \<open>should_proceed\<close>; \<open>has_conflict\<close>
  and \<open>should_skip\<close> are never both true. So exactly one of three outcomes holds:
  conflict, skip, or proceed without skip.
\<close>

theorem validation_result_decisions:
  "(should_proceed r \<longleftrightarrow> \<not> has_conflict r)
   \<and> (should_skip r \<longrightarrow> should_proceed r)
   \<and> \<not> (has_conflict r \<and> should_skip r)
   \<and> (has_conflict r \<or> should_skip r \<or> (should_proceed r \<and> \<not> should_skip r))
   \<and> \<not> (has_conflict r \<and> should_proceed r \<and> \<not> should_skip r)
   \<and> \<not> (should_skip r \<and> should_proceed r \<and> \<not> should_skip r)"
  by (auto simp: should_proceed_def has_conflict_def should_skip_def)

theorem validation_result_decisions_witness:
  "should_skip \<lparr> server_exists = True, project_id_matches = True, server_name = ''lf-a'',
        existing_config = None, conflict_message = [] \<rparr>
   \<and> should_proceed \<lparr> server_exists = True, project_id_matches = True, server_name = ''lf-a'',
        existing_config = None, conflict_message = [] \<rparr>
   \<and> \<not> has_conflict \<lparr> server_exists = True, project_id_matches = True, server_name = ''lf-a'',
        existing_config = None, conflict_message = [] \<rparr>
   \<and> has_conflict \<lparr> server_exists = True, project_id_matches = False, server_name = ''lf-a'',
        existing_config = None, conflict_message = ''conflict'' \<rparr>
   \<and> \<not> should_proceed \<lparr> server_exists = True, project_id_matches = False, server_name = ''lf-a'',
        existing_config = None, conflict_message = ''conflict'' \<rparr>
   \<and> should_proceed \<lparr> server_exists = False, project_id_matches = False, server_name = ''lf-a'',
        existing_config = None, conflict_message = [] \<rparr>
   \<and> \<not> should_skip \<lparr> server_exists = False, project_id_matches = False, server_name = ''lf-a'',
        existing_config = None, conflict_message = [] \<rparr>"
  using validation_result_decisions
    [of "\<lparr> server_exists = True, project_id_matches = True, server_name = ''lf-a'',
           existing_config = None, conflict_message = [] \<rparr>"]
    validation_result_decisions
    [of "\<lparr> server_exists = True, project_id_matches = False, server_name = ''lf-a'',
           existing_config = None, conflict_message = ''conflict'' \<rparr>"]
    validation_result_decisions
    [of "\<lparr> server_exists = False, project_id_matches = False, server_name = ''lf-a'',
           existing_config = None, conflict_message = [] \<rparr>"]
  by (simp add: should_proceed_def has_conflict_def should_skip_def)

section \<open>MCP server validation: failures of the listing\<close>

lemma init_without_project_id_matches:
  "MCPServerValidationResult_init (Some se) None n c m
     = Inl (TypeError ''missing 1 required keyword-only argument: project_id_matches'')"
  by (simp add: MCPServerValidationResult_init_def)

text \<open>
  C7. The claim is that \<open>validate_mcp_server_for_project\<close> returns a result with
  \<open>server_exists = False\<close> whenever listing the servers raises. The code does not: the
  handler builds the result without \<open>project_id_matches\<close>, which the constructor
  requires, so for every project, name and operation, when the listing raises an
  exception the function raises \<open>TypeError\<close>.
\<close>

theorem validate_raises_when_listing_fails:
  "validate_mcp_server_for_project sanitize_mcp_name max_len project_id project_name
       (Inl (Exception msg)) operation
     = Inl (TypeError ''missing 1 required keyword-only argument: project_id_matches'')"
  by (simp add: validate_mcp_server_for_project_def validate_try_body_def except_Exception_def
        init_without_project_id_matches)

text \<open>
  At a concrete call: project \<open>My Project\<close> with the zero UUID, operation \<open>create\<close>,
  a sanitizer that leaves the name as it is and a maximal length of 64, when the
  listing raises.
\<close>

lemma validate_raises_at_sample:
  "validate_mcp_server_for_project (\<lambda>s. s) 64 0 ''My Project''
       (Inl (Exception ''storage unavailable'')) ''create''
     = Inl (TypeError ''missing 1 required keyword-only argument: project_id_matches'')"
  by (simp add: validate_mcp_server_for_project_def validate_try_body_def except_Exception_def
        MCPServerValidationResult_init_def)

text \<open>
  The same call without \<open>project_id_matches\<close> stands in the branch for a server that
  is not listed, so that branch raises too; the function returns only for a server
  that is listed.
\<close>

lemma validate_raises_when_server_absent:
  "(case servers of None \<Rightarrow> None | Some m \<Rightarrow> m (''lf-'' @ py_slice_to (sanitize_mcp_name project_name) (max_len - 4))) = None \<Longrightarrow>
   validate_mcp_server_for_project sanitize_mcp_name max_len project_id project_name
       (Inr servers) operation
     = Inl (TypeError ''missing 1 required keyword-only argument: project_id_matches'')"
  by (auto simp: validate_mcp_server_for_project_def validate_try_body_def except_Exception_def
        init_without_project_id_matches Let_def split: option.splits)

lemma validate_returns_when_server_present:
  "servers (''lf-'' @ py_slice_to (sanitize_mcp_name project_name) (max_len - 4)) = Some cfg \<Longrightarrow>
   \<exists>r. validate_mcp_server_for_project sanitize_mcp_name max_len project_id project_name
       (Inr (Some servers)) operation = Inr r \<and> server_exists r"
  by (auto simp: validate_mcp_server_for_project_def validate_try_body_def
        MCPServerValidationResult_init_def Let_def)

section \<open>The SSE URL of a project\<close>

lemma digit_char_not_slash: "digit_char d \<noteq> CHR ''/''"
  by (simp add: digit_char_def)

lemma digit_char_not_h: "digit_char d \<noteq> CHR ''h''"
  by (simp add: digit_char_def)

lemma hex_char_not_h: "hex_char d \<noteq> CHR ''h''"
  by (simp add: hex_char_def digit_char_not_h)

lemma str_nat_snoc: "\<exists>ds. str_nat n = ds @ [digit_char (n mod 10)]"
  by (subst str_nat.simps) auto

lemma str_int_snoc: "\<exists>ds d. str_int i = ds @ [digit_char d]"
proof (cases "i < 0")
  case True
  obtain ds where "str_nat (nat (- i)) = ds @ [digit_char (nat (- i) mod 10)]"
    using str_nat_snoc by blast
  then have "str_int i = (CHR ''-'' # ds) @ [digit_char (nat (- i) mod 10)]"
    using True by (simp add: str_int_def)
  then show ?thesis by blast
next
  case False
  obtain ds where "str_nat (nat i) = ds @ [digit_char (nat i mod 10)]"
    using str_nat_snoc by blast
  then have "str_int i = ds @ [digit_char (nat i mod 10)]"
    using False by (simp add: str_int_def)
  then show ?thesis by blast
qed

lemma py_rstrip_base_url:
  "py_rstrip ''/'' (''http://'' @ host @ '':'' @ str_int port) = ''http://'' @ host @ '':'' @ str_int port"
proof -
  obtain ds d where "str_int port = ds @ [digit_char d]"
    using str_int_snoc by blast
  then show ?thesis
    by (simp add: py_rstrip_def digit_char_not_slash)
qed

lemma h_notin_hex32: "CHR ''h'' \<notin> set (hex32 u)"
  using hex_char_not_h by (fastforce simp: hex32_def)

lemma h_notin_str_uuid: "CHR ''h'' \<notin> set (str_uuid u)"
proof -
  have "set (str_uuid u) \<subseteq> insert CHR ''-'' (set (hex32 u))"
    by (auto simp: str_uuid_def Let_def dest: in_set_takeD in_set_dropD)
  then show ?thesis using h_notin_hex32 [of u] by auto
qed

lemma py_replace_no_occurrence:
  "old \<noteq> [] \<Longrightarrow> hd old \<notin> set s \<Longrightarrow> py_replace old new s = s"
proof (induction s)
  case Nil
  then show ?case by (simp add: py_replace.simps)
next
  case (Cons c cs)
  then have "\<not> prefix old (c # cs)"
    by (cases old) (auto simp: prefix_def)
  with Cons show ?case
    by (subst py_replace.simps) simp
qed

lemma py_replace_at_start:
  "old \<noteq> [] \<Longrightarrow> py_replace old new (old @ rest) = new @ py_replace old new rest"
  by (subst py_replace.simps) simp

lemma h_notin_sse_path: "CHR ''h'' \<notin> set (sse_path u)"
  by (simp add: sse_path_def h_notin_str_uuid)

lemma py_replace_sse_url:
  "py_replace (''http://'' @ host @ '':'' @ str_int port) (''http://'' @ ip @ '':'' @ str_int port)
     (sse_url host port u) = sse_url ip port u"
proof -
  let ?old = "''http://'' @ host @ '':'' @ str_int port"
  have "sse_url host port u = ?old @ sse_path u" by (simp add: sse_url_def)
  moreover have "py_replace ?old new (?old @ sse_path u) = new @ py_replace ?old new (sse_path u)" for new
    by (rule py_replace_at_start) simp
  moreover have "py_replace ?old new (sse_path u) = sse_path u" for new
    by (rule py_replace_no_occurrence) (simp_all add: h_notin_sse_path)
  ultimately show ?thesis by (simp add: sse_url_def)
qed

lemma get_project_sse_url_unfold:
  "get_project_sse_url env st u =
     get_url_by_os env (connect_host st) (server_port st) (sse_url (connect_host st) (server_port st) u)"
  unfolding get_project_sse_url_def Let_def
  by (simp only: py_rstrip_base_url) (simp add: sse_url_def sse_path_def)

lemma get_url_by_os_not_wsl:
  "\<not> (is_wsl env \<and> host \<in> {''localhost'', ''127.0.0.1''}) \<Longrightarrow> get_url_by_os env host port url = Inr url"
  by (auto simp: get_url_by_os_def)

lemma get_url_by_os_oserror:
  "hostname_I env = ProcOSError msg \<Longrightarrow> get_url_by_os env host port url = Inr url"
  by (simp add: get_url_by_os_def)

lemma get_url_by_os_no_output:
  "hostname_I env = ProcCompleted rc out \<Longrightarrow> rc \<noteq> 0 \<or> py_strip_with is_space_bytes out = [] \<Longrightarrow>
   get_url_by_os env host port url = Inr url"
  by (auto simp: get_url_by_os_def)

lemma get_url_by_os_wsl:
  "is_wsl env \<Longrightarrow> host \<in> {''localhost'', ''127.0.0.1''} \<Longrightarrow> hostname_I env = ProcCompleted 0 out \<Longrightarrow>
   py_strip_with is_space_bytes out \<noteq> [] \<Longrightarrow> py_split_first (py_strip_with is_space out) = Inr ip \<Longrightarrow>
   get_url_by_os env host port (sse_url host port u) = Inr (sse_url ip port u)"
  unfolding get_url_by_os_def
  by (simp only: py_replace_sse_url if_True simp_thms proc_result.case sum.case refl)

lemma get_url_by_os_sse_url:
  "get_url_by_os env host port (sse_url host port u) = Inr url \<Longrightarrow> \<exists>h. url = sse_url h port u"
  unfolding get_url_by_os_def
  by (simp only: py_replace_sse_url split: if_splits proc_result.splits sum.splits) blast+

lemma suffix_sse_path: "suffix (sse_path u) (sse_url h p u)"
  unfolding sse_url_def suffix_def by (metis append.assoc)

lemma connect_host_not_all_interfaces: "connect_host st \<noteq> ALL_INTERFACES_HOST"
  by (simp add: connect_host_def ALL_INTERFACES_HOST_def)

lemma str_uuid_zero: "str_uuid 0 = ''00000000-0000-0000-0000-000000000000''"
  by (simp add: str_uuid_def hex32_def hex_char_def digit_char_def upt_rec)

lemma str_int_7860: "str_int 7860 = ''7860''"
  by (simp add: str_int_def str_nat.simps digit_char_def)

lemma str_int_8000: "str_int 8000 = ''8000''"
  by (simp add: str_int_def str_nat.simps digit_char_def)

lemma is_wsl_sample_wsl_env: "is_wsl sample_wsl_env"
  by (simp add: is_wsl_def sample_wsl_env_def py_lower_def lower_char_def)

lemma not_is_wsl_sample_linux_env: "\<not> is_wsl sample_linux_env"
  by (simp add: is_wsl_def sample_linux_env_def py_lower_def lower_char_def)

lemma sample_settings_values:
  "connect_host sample_settings = ''localhost''" "server_port sample_settings = 7860"
  by (simp_all add: connect_host_def server_host_def server_port_def truthy_int_def
        sample_settings_def ALL_INTERFACES_HOST_def)

lemma sample_wsl_ip:
  "py_strip_with is_space_bytes ''172.20.0.5 10.0.0.1 '' \<noteq> []"
  "py_split_first (py_strip_with is_space ''172.20.0.5 10.0.0.1 '') = Inr ''172.20.0.5''"
  by (simp_all add: py_strip_with_def py_split_first_def is_space_def is_space_bytes_def)

text \<open>
  C8, as stated, fails: under WSL, with the server bound to \<open>0.0.0.0\<close>, the URL does
  not use \<open>localhost\<close> but the first address that \<open>hostname -I\<close> prints.
\<close>

theorem sse_url_wsl_counterexample:
  "get_project_sse_url sample_wsl_env sample_settings 0
     = Inr ''http://172.20.0.5:7860/api/v1/mcp/project/00000000-0000-0000-0000-000000000000/sse''
   \<and> get_project_sse_url sample_wsl_env sample_settings 0
     \<noteq> Inr ''http://localhost:7860/api/v1/mcp/project/00000000-0000-0000-0000-000000000000/sse''"
proof -
  have "get_project_sse_url sample_wsl_env sample_settings 0
          = Inr (sse_url ''172.20.0.5'' 7860 0)"
    unfolding get_project_sse_url_unfold sample_settings_values
    by (rule get_url_by_os_wsl [where out = "''172.20.0.5 10.0.0.1 ''"])
       (simp_all add: is_wsl_sample_wsl_env sample_wsl_ip, simp add: sample_wsl_env_def)
  then show ?thesis
    by (simp add: sse_url_def sse_path_def str_uuid_zero str_int_7860)
qed

text \<open>
  C8, amended. The host to connect to is \<open>localhost\<close> when the configured host is
  \<open>0.0.0.0\<close> and the configured host otherwise, so it is never \<open>0.0.0.0\<close>; the port is
  the runtime port when that is set and not zero, else the configured port when that
  is set and not zero, else 7860. Outside WSL, or when the host to connect to is
  neither \<open>localhost\<close> nor \<open>127.0.0.1\<close>, or when \<open>hostname -I\<close> cannot be run, fails or
  prints nothing, the URL is \<open>http://host:port/api/v1/mcp/project/<project_id>/sse\<close>
  with that host and port. Under WSL with host \<open>localhost\<close> or \<open>127.0.0.1\<close>, when
  \<open>hostname -I\<close> succeeds, the host of the URL is the first address it prints instead.
  Whenever a URL is returned it has this shape for some host, and it ends with
  \<open>/api/v1/mcp/project/<project_id>/sse\<close>.
\<close>

theorem get_project_sse_url_amended:
  "connect_host st \<noteq> ALL_INTERFACES_HOST
   \<and> connect_host st = (if server_host st = ALL_INTERFACES_HOST then ''localhost'' else server_host st)
   \<and> (\<forall>p. settings_runtime_port st = Some p \<and> p \<noteq> 0 \<longrightarrow> server_port st = p)
   \<and> (\<forall>q. settings_runtime_port st \<in> {None, Some 0} \<and> settings_port st = Some q \<and> q \<noteq> 0
          \<longrightarrow> server_port st = q)
   \<and> (settings_runtime_port st \<in> {None, Some 0} \<and> settings_port st \<in> {None, Some 0}
          \<longrightarrow> server_port st = 7860)
   \<and> (\<not> (is_wsl env \<and> connect_host st \<in> {''localhost'', ''127.0.0.1''})
          \<longrightarrow> get_project_sse_url env st u = Inr (sse_url (connect_host st) (server_port st) u))
   \<and> (\<forall>msg. hostname_I env = ProcOSError msg
          \<longrightarrow> get_project_sse_url env st u = Inr (sse_url (connect_host st) (server_port st) u))
   \<and> (\<forall>rc out. hostname_I env = ProcCompleted rc out
                 \<and> (rc \<noteq> 0 \<or> py_strip_with is_space_bytes out = [])
          \<longrightarrow> get_project_sse_url env st u = Inr (sse_url (connect_host st) (server_port st) u))
   \<and> (\<forall>out ip. is_wsl env \<and> connect_host st \<in> {''localhost'', ''127.0.0.1''}
                 \<and> hostname_I env = ProcCompleted 0 out
                 \<and> py_strip_with is_space_bytes out \<noteq> []
                 \<and> py_split_first (py_strip_with is_space out) = Inr ip
          \<longrightarrow> get_project_sse_url env st u = Inr (sse_url ip (server_port st) u))
   \<and> (\<forall>url. get_project_sse_url env st u = Inr url
          \<longrightarrow> (\<exists>h. url = sse_url h (server_port st) u) \<and> suffix (sse_path u) url)"
proof -
  have host: "connect_host st = (if server_host st = ALL_INTERFACES_HOST then ''localhost'' else server_host st)"
    by (simp add: connect_host_def)
  have p1: "\<forall>p. settings_runtime_port st = Some p \<and> p \<noteq> 0 \<longrightarrow> server_port st = p"
    by (simp add: server_port_def truthy_int_def)
  have p2: "\<forall>q. settings_runtime_port st \<in> {None, Some 0} \<and> settings_port st = Some q \<and> q \<noteq> 0
          \<longrightarrow> server_port st = q"
    by (auto simp: server_port_def truthy_int_def)
  have p3: "settings_runtime_port st \<in> {None, Some 0} \<and> settings_port st \<in> {None, Some 0}
          \<longrightarrow> server_port st = 7860"
    by (auto simp: server_port_def truthy_int_def)
  have u1: "\<not> (is_wsl env \<and> connect_host st \<in> {''localhost'', ''127.0.0.1''})
          \<longrightarrow> get_project_sse_url env st u = Inr (sse_url (connect_host st) (server_port st) u)"
    using get_url_by_os_not_wsl by (simp only: get_project_sse_url_unfold) blast
  have u2: "\<forall>msg. hostname_I env = ProcOSError msg
          \<longrightarrow> get_project_sse_url env st u = Inr (sse_url (connect_host st) (server_port st) u)"
    using get_url_by_os_oserror by (simp only: get_project_sse_url_unfold) blast
  have u3: "\<forall>rc out. hostname_I env = ProcCompleted rc out
                 \<and> (rc \<noteq> 0 \<or> py_strip_with is_space_bytes out = [])
          \<longrightarrow> get_project_sse_url env st u = Inr (sse_url (connect_host st) (server_port st) u)"
    using get_url_by_os_no_output by (simp only: get_project_sse_url_unfold) blast
  have u4: "\<forall>out ip. is_wsl env \<and> connect_host st \<in> {''localhost'', ''127.0.0.1''}
                 \<and> hostname_I env = ProcCompleted 0 out
                 \<and> py_strip_with is_space_bytes out \<noteq> []
                 \<and> py_split_first (py_strip_with is_space out) = Inr ip
          \<longrightarrow> get_project_sse_url env st u = Inr (sse_url ip (server_port st) u)"
    using get_url_by_os_wsl by (simp only: get_project_sse_url_unfold) blast
  have u5: "\<forall>url. get_project_sse_url env st u = Inr url
          \<longrightarrow> (\<exists>h. url = sse_url h (server_port st) u) \<and> suffix (sse_path u) url"
    using get_url_by_os_sse_url suffix_sse_path by (simp only: get_project_sse_url_unfold) blast
  show ?thesis
    using connect_host_not_all_interfaces host p1 p2 p3 u1 u2 u3 u4 u5 by blast
qed

theorem get_project_sse_url_amended_witness:
  "connect_host sample_settings = ''localhost''
   \<and> server_port sample_settings = 7860
   \<and> server_port (sample_settings\<lparr> settings_runtime_port := Some 0, settings_port := Some 8000 \<rparr>) = 8000
   \<and> server_port (sample_settings\<lparr> settings_runtime_port := Some 8000, settings_port := Some 7000 \<rparr>) = 8000
   \<and> get_project_sse_url sample_linux_env sample_settings 0
        = Inr ''http://localhost:7860/api/v1/mcp/project/00000000-0000-0000-0000-000000000000/sse''
   \<and> get_project_sse_url (sample_wsl_env\<lparr> hostname_I := ProcOSError ''no such file'' \<rparr>) sample_settings 0
        = Inr ''http://localhost:7860/api/v1/mcp/project/00000000-0000-0000-0000-000000000000/sse''
   \<and> get_project_sse_url (sample_wsl_env\<lparr> hostname_I := ProcCompleted 1 [] \<rparr>) sample_settings 0
        = Inr ''http://localhost:7860/api/v1/mcp/project/00000000-0000-0000-0000-000000000000/sse''
   \<and> get_project_sse_url sample_wsl_env sample_settings 0
        = Inr ''http://172.20.0.5:7860/api/v1/mcp/project/00000000-0000-0000-0000-000000000000/sse''
   \<and> suffix ''/api/v1/mcp/project/00000000-0000-0000-0000-000000000000/sse''
        ''http://172.20.0.5:7860/api/v1/mcp/project/00000000-0000-0000-0000-000000000000/sse''"
proof -
  have wsl: "hostname_I sample_wsl_env = ProcCompleted 0 ''172.20.0.5 10.0.0.1 ''"
    by (simp add: sample_wsl_env_def)
  have path: "sse_path 0 = ''/api/v1/mcp/project/00000000-0000-0000-0000-000000000000/sse''"
    by (simp add: sse_path_def str_uuid_zero)
  have url: "sse_url h 7860 0 = ''http://'' @ h @ '':7860/api/v1/mcp/project/00000000-0000-0000-0000-000000000000/sse''" for h
    by (simp add: sse_url_def path str_int_7860)
  have p1: "server_port (sample_settings\<lparr> settings_runtime_port := Some 0, settings_port := Some 8000 \<rparr>) = 8000"
    using get_project_sse_url_amended
      [of "sample_settings\<lparr> settings_runtime_port := Some 0, settings_port := Some 8000 \<rparr>"]
    by simp
  have p2: "server_port (sample_settings\<lparr> settings_runtime_port := Some 8000, settings_port := Some 7000 \<rparr>) = 8000"
    using get_project_sse_url_amended
      [of "sample_settings\<lparr> settings_runtime_port := Some 8000, settings_port := Some 7000 \<rparr>"]
    by simp
  have a: "get_project_sse_url sample_linux_env sample_settings 0 = Inr (sse_url ''localhost'' 7860 0)"
    using get_project_sse_url_amended [of sample_settings sample_linux_env 0]
    by (simp add: not_is_wsl_sample_linux_env sample_settings_values)
  have b: "get_project_sse_url (sample_wsl_env\<lparr> hostname_I := ProcOSError ''no such file'' \<rparr>) sample_settings 0
             = Inr (sse_url ''localhost'' 7860 0)"
    using get_project_sse_url_amended
      [of sample_settings "sample_wsl_env\<lparr> hostname_I := ProcOSError ''no such file'' \<rparr>" 0]
    by (simp add: sample_settings_values)
  have c: "get_project_sse_url (sample_wsl_env\<lparr> hostname_I := ProcCompleted 1 [] \<rparr>) sample_settings 0
             = Inr (sse_url ''localhost'' 7860 0)"
    using get_project_sse_url_amended
      [of sample_settings "sample_wsl_env\<lparr> hostname_I := ProcCompleted 1 [] \<rparr>" 0]
    by (simp add: sample_settings_values)
  have d: "get_project_sse_url sample_wsl_env sample_settings 0 = Inr (sse_url ''172.20.0.5'' 7860 0)"
    using get_project_sse_url_amended [of sample_settings sample_wsl_env 0]
    by (simp add: sample_settings_values is_wsl_sample_wsl_env wsl sample_wsl_ip)
  have e: "suffix (sse_path 0) (sse_url ''172.20.0.5'' 7860 0)"
    using get_project_sse_url_amended [of sample_settings sample_wsl_env 0] d
    by (simp add: sample_settings_values)
  show ?thesis
    using p1 p2 a b c d e by (simp add: sample_settings_values url path)
qed

section \<open>The prompt component\<close>

text \<open>
  C9. \<open>build_prompt\<close> builds the prompt with the format \<open>mustache\<close> exactly when the
  mode is \<open>{{variable}}\<close>, and with \<open>f-string\<close> in every other case, also when the
  component has no mode; when the prompt is built, the component's status becomes the
  prompt's text and the prompt is returned; when building it raises, the exception is
  passed on.
\<close>

theorem build_prompt_format:
  "(template_format_of self = ''mustache'' \<longleftrightarrow> comp_mode self = Some (PStr ''{{variable}}''))
   \<and> (comp_mode self \<noteq> Some (PStr ''{{variable}}'') \<longrightarrow> template_format_of self = ''f-string'')
   \<and> (\<forall>prompt. from_template_and_variables (template_format_of self) (comp_attributes self) = Inr prompt
         \<longrightarrow> build_prompt from_template_and_variables self
               = Inr (self\<lparr> comp_status := msg_text prompt \<rparr>, prompt))
   \<and> (\<forall>e. from_template_and_variables (template_format_of self) (comp_attributes self) = Inl e
         \<longrightarrow> build_prompt from_template_and_variables self = Inl e)"
  by (auto simp: template_format_of_def build_prompt_def split: option.splits)


theorem build_prompt_format_witness:
  "template_format_of \<lparr> comp_mode = Some (PStr ''{{variable}}''), comp_attributes = Map.empty, comp_status = [] \<rparr>
     = ''mustache''
   \<and> build_prompt (\<lambda>fmt attrs. Inr \<lparr> msg_text = ''format: '' @ fmt \<rparr>)
        \<lparr> comp_mode = Some (PStr ''{{variable}}''), comp_attributes = Map.empty, comp_status = [] \<rparr>
     = Inr (\<lparr> comp_mode = Some (PStr ''{{variable}}''), comp_attributes = Map.empty,
              comp_status = ''format: mustache'' \<rparr>,
            \<lparr> msg_text = ''format: mustache'' \<rparr>)
   \<and> build_prompt (\<lambda>fmt attrs. Inr \<lparr> msg_text = ''format: '' @ fmt \<rparr>)
        \<lparr> comp_mode = None, comp_attributes = Map.empty, comp_status = [] \<rparr>
     = Inr (\<lparr> comp_mode = None, comp_attributes = Map.empty, comp_status = ''format: f-string'' \<rparr>,
            \<lparr> msg_text = ''format: f-string'' \<rparr>)
   \<and> build_prompt (\<lambda>fmt attrs. Inl (Exception ''invalid template''))
        \<lparr> comp_mode = Some (PStr ''{variable}''), comp_attributes = Map.empty, comp_status = [] \<rparr>
     = Inl (Exception ''invalid template'')"
  using build_prompt_format
    [of "\<lparr> comp_mode = Some (PStr ''{{variable}}''), comp_attributes = Map.empty, comp_status = [] \<rparr>"
        "\<lambda>fmt attrs. Inr \<lparr> msg_text = ''format: '' @ fmt \<rparr>"]
    build_prompt_format
    [of "\<lparr> comp_mode = None, comp_attributes = Map.empty, comp_status = [] \<rparr>"
        "\<lambda>fmt attrs. Inr \<lparr> msg_text = ''format: '' @ fmt \<rparr>"]
    build_prompt_format
    [of "\<lparr> comp_mode = Some (PStr ''{variable}''), comp_attributes = Map.empty, comp_status = [] \<rparr>"
        "\<lambda>fmt attrs. Inl (Exception ''invalid template'')"]
  by (simp add: template_format_of_def build_prompt_def)

end
